theory Spec2Isabelle
  imports Main
begin

section \<open>Characters and Python string helpers\<close>

text \<open>
  Texts are lists of characters, one offset unit per character (Python's \<open>len\<close> and the
  regular-expression engine's offsets then count the same units).
\<close>

definition dq :: char where "dq = CHR 0x22"
definition sq :: char where "sq = CHR 0x27"
definition bsl :: char where "bsl = CHR 0x5C"
definition nl :: char where "nl = CHR 0x0A"

definition lower_chars :: string where "lower_chars = ''abcdefghijklmnopqrstuvwxyz''"
definition upper_chars :: string where "upper_chars = ''ABCDEFGHIJKLMNOPQRSTUVWXYZ''"
definition digit_chars :: string where "digit_chars = ''0123456789''"






section \<open>Snippet tags (snippet\_manager.py)\<close>









section \<open>Regular expressions\<close>

text \<open>
  The patterns of syntax\_highlighter.py are \<open>QRegularExpression\<close> objects. They are
  embedded as syntax trees with a backtracking matcher: \<open>rmatch r s i\<close> lists, in the
  engine's order of preference, the end offsets of the matches of \<open>r\<close> in subject \<open>s\<close>
  that start at offset \<open>i\<close>.
\<close>

datatype regex =
    Eps
  | Cls bool "char list"
  | Cat regex regex
  | Alt regex regex
  | Rep bool nat "nat option" regex
  | Ahead bool regex
  | NotBehind "char list"
  | WordB
  | Bol

definition word_chars :: string where
  "word_chars = lower_chars @ upper_chars @ digit_chars @ ''_''"

definition is_word_at :: "string \<Rightarrow> nat \<Rightarrow> bool" where
  "is_word_at s i = (i < length s \<and> List.member word_chars (s ! i))"

text \<open>
  Repetition \<open>r{mn,mx}\<close> (\<open>mx = None\<close>: unbounded), greedy or lazy. \<open>step\<close> is the
  matcher of the body. An optional iteration that consumes nothing is not repeated.
\<close>

fun rep :: "(nat \<Rightarrow> nat list) \<Rightarrow> bool \<Rightarrow> nat \<Rightarrow> nat option \<Rightarrow> nat \<Rightarrow> nat \<Rightarrow> nat list" where
  "rep step greedy (Suc mn) mx fuel i =
     concat (map (\<lambda>j. rep step greedy mn (map_option (\<lambda>m. m - 1) mx) fuel j) (step i))"
| "rep step greedy 0 mx 0 i = [i]"
| "rep step greedy 0 mx (Suc fuel) i =
     (if mx = Some 0 then [i]
      else let more = concat (map (\<lambda>j. if i < j
                                         then rep step greedy 0 (map_option (\<lambda>m. m - 1) mx) fuel j
                                         else [])
                                  (step i))
           in if greedy then more @ [i] else i # more)"

primrec rmatch :: "regex \<Rightarrow> string \<Rightarrow> nat \<Rightarrow> nat list" where
  "rmatch Eps s i = [i]"
| "rmatch (Cls pos cs) s i =
     (if i < length s \<and> (List.member cs (s ! i) = pos) then [Suc i] else [])"
| "rmatch (Cat r1 r2) s i = concat (map (rmatch r2 s) (rmatch r1 s i))"
| "rmatch (Alt r1 r2) s i = rmatch r1 s i @ rmatch r2 s i"
| "rmatch (Rep greedy mn mx r) s i = rep (rmatch r s) greedy mn mx (length s - i) i"
| "rmatch (Ahead pos r) s i = (if (rmatch r s i \<noteq> []) = pos then [i] else [])"
| "rmatch (NotBehind cs) s i =
     (if 0 < i \<and> i \<le> length s \<and> List.member cs (s ! (i - 1)) then [] else [i])"
| "rmatch WordB s i =
     (if (0 < i \<and> is_word_at s (i - 1)) \<noteq> is_word_at s i then [i] else [])"
| "rmatch Bol s i = (if i = 0 then [i] else [])"

text \<open>The match starting exactly at offset \<open>i\<close>, optionally required to be non-empty.\<close>

definition match_at :: "bool \<Rightarrow> regex \<Rightarrow> string \<Rightarrow> nat \<Rightarrow> nat option" where
  "match_at notempty r s i =
     (case filter (\<lambda>e. \<not> notempty \<or> e \<noteq> i) (rmatch r s i) of
        [] \<Rightarrow> None
      | e # _ \<Rightarrow> Some e)"

text \<open>The leftmost match among the start offsets \<open>p, p + 1, ..., p + n\<close>.\<close>

primrec scan_from :: "regex \<Rightarrow> string \<Rightarrow> nat \<Rightarrow> nat \<Rightarrow> (nat \<times> nat) option" where
  "scan_from r s 0 p =
     (case match_at False r s p of None \<Rightarrow> None | Some e \<Rightarrow> Some (p, e - p))"
| "scan_from r s (Suc n) p =
     (case match_at False r s p of
        None \<Rightarrow> scan_from r s n (Suc p)
      | Some e \<Rightarrow> Some (p, e - p))"

text \<open>
  \<open>pattern.match(text, offset)\<close>: \<open>None\<close> when \<open>hasMatch()\<close> is false, otherwise
  \<open>(capturedStart(), capturedLength())\<close>.
\<close>

definition re_match :: "regex \<Rightarrow> string \<Rightarrow> nat \<Rightarrow> (nat \<times> nat) option" where
  "re_match r s offset =
     (if offset \<le> length s then scan_from r s (length s - offset) offset else None)"

text \<open>
  The match that follows a match ending at \<open>offset\<close>, as \<open>QRegularExpressionMatchIterator\<close>
  computes it: after an empty match the engine first retries at the same offset for a
  non-empty match anchored there, and otherwise searches from the next offset.
\<close>

definition next_match :: "regex \<Rightarrow> string \<Rightarrow> nat \<Rightarrow> bool \<Rightarrow> (nat \<times> nat) option" where
  "next_match r s offset previous_empty =
     (if previous_empty then
        (case match_at True r s offset of
           Some e \<Rightarrow> Some (offset, e - offset)
         | None \<Rightarrow> re_match r s (Suc offset))
      else re_match r s offset)"

text \<open>
  \<open>pattern.globalMatch(sub_text)\<close>, read to its end by the \<open>hasNext()\<close>/\<open>next()\<close> loop:
  the successive matches as \<open>(capturedStart(), capturedLength())\<close>.
\<close>

function global_match :: "regex \<Rightarrow> string \<Rightarrow> nat \<Rightarrow> bool \<Rightarrow> (nat \<times> nat) list" where
  "global_match r s offset previous_empty =
     (case next_match r s offset previous_empty of
        None \<Rightarrow> []
      | Some (start, len) \<Rightarrow> (start, len) # global_match r s (start + len) (len = 0))"
  by pat_completeness auto

definition globalMatch :: "regex \<Rightarrow> string \<Rightarrow> (nat \<times> nat) list" where
  "globalMatch r s = global_match r s 0 False"

section \<open>Pattern notation\<close>

definition ch :: "char \<Rightarrow> regex" where
  "ch c = Cls True [c]"

primrec lit :: "string \<Rightarrow> regex" where
  "lit [] = Eps"
| "lit (c # cs) = Cat (ch c) (lit cs)"

primrec seq :: "regex list \<Rightarrow> regex" where
  "seq [] = Eps"
| "seq (r # rs) = Cat r (seq rs)"

fun alts :: "regex list \<Rightarrow> regex" where
  "alts [] = Cls True []"
| "alts [r] = r"
| "alts (r # rs) = Alt r (alts rs)"

definition star :: "regex \<Rightarrow> regex" where "star r = Rep True 0 None r"
definition plus :: "regex \<Rightarrow> regex" where "plus r = Rep True 1 None r"
definition opt :: "regex \<Rightarrow> regex" where "opt r = Rep True 0 (Some 1) r"
definition lazy_star :: "regex \<Rightarrow> regex" where "lazy_star r = Rep False 0 None r"
definition lazy_plus :: "regex \<Rightarrow> regex" where "lazy_plus r = Rep False 1 None r"

text \<open>
  The dot (any character but a newline) and the classes \<^verbatim>\<open>\w\<close>, \<^verbatim>\<open>\s\<close>, \<^verbatim>\<open>\d\<close>
  (ASCII, as the patterns are compiled without the Unicode-properties option).
\<close>

definition any_char :: regex where "any_char = Cls False [nl]"
definition word_c :: regex where "word_c = Cls True word_chars"
definition space_c :: regex where
  "space_c = Cls True [CHR 0x20, CHR 0x09, CHR 0x0A, CHR 0x0B, CHR 0x0C, CHR 0x0D]"
definition digit_c :: regex where "digit_c = Cls True digit_chars"
definition hex_chars :: string where "hex_chars = digit_chars @ ''abcdef'' @ ''ABCDEF''"
definition alpha_chars :: string where "alpha_chars = lower_chars @ upper_chars"
definition alnum_chars :: string where "alnum_chars = lower_chars @ upper_chars @ digit_chars"

text \<open>The f-string pattern \<^verbatim>\<open>\b{kw}\b\<close> for a word \<open>kw\<close> free of metacharacters.\<close>

definition bword :: "string \<Rightarrow> regex" where
  "bword kw = seq [WordB, lit kw, WordB]"

text \<open>The same under \<open>CaseInsensitiveOption\<close>: each letter matches in either case.\<close>

definition swap_case :: "char \<Rightarrow> char" where
  "swap_case c =
     (case map_of (zip (upper_chars @ lower_chars) (lower_chars @ upper_chars)) c of
        Some d \<Rightarrow> d
      | None \<Rightarrow> c)"

primrec lit_ci :: "string \<Rightarrow> regex" where
  "lit_ci [] = Eps"
| "lit_ci (c # cs) =
     Cat (Cls True (if swap_case c = c then [c] else [c, swap_case c])) (lit_ci cs)"

definition bword_ci :: "string \<Rightarrow> regex" where
  "bword_ci kw = seq [WordB, lit_ci kw, WordB]"

section \<open>The rule table (\_setup\_delimiters\_and\_rules)\<close>

text \<open>
  A \<open>QTextCharFormat\<close> is identified by the variable of the source that holds it.
\<close>

text \<open>
  The argument \<open>language\<close> of the functions below is \<open>self.language\<close>, the name
  given to the constructor after \<open>lower()\<close>.
\<close>

datatype fmt =
    keyword_format | operator_format | brace_format | comment_format | string_format
  | number_format | function_format | class_type_format | decorator_format
  | preprocessor_format | tag_format | attribute_format | value_format | selector_format
  | property_format | css_value_format | md_header_format | md_emphasis_format
  | md_italic_format | md_code_format | md_code_block_marker_format | link_format
  | entity_format | unit_format | color_format | self_format | builtin_format
  | regex_format | cpp_type_format | cpp_literal_format

type_synonym rule = "regex \<times> fmt"

text \<open>The fields of a \<open>SyntaxHighlighter\<close> that \<open>highlightBlock\<close> reads.\<close>

record highlighter =
  highlighting_rules :: "rule list"
  ml_comment_start :: "regex option"
  ml_comment_end :: "regex option"
  ml_string_dq_start :: "regex option"
  ml_string_dq_end :: "regex option"
  ml_string_sq_start :: "regex option"
  ml_string_sq_end :: "regex option"

definition py_keywords :: "string list" where
  "py_keywords =
    [''and'', ''as'', ''assert'', ''async'', ''await'', ''break'', ''class'', ''continue'',
     ''def'', ''del'', ''elif'', ''else'', ''except'', ''False'', ''finally'', ''for'',
     ''from'', ''global'', ''if'', ''import'', ''in'', ''is'', ''lambda'', ''None'',
     ''nonlocal'', ''not'', ''or'', ''pass'', ''raise'', ''return'', ''True'', ''try'',
     ''while'', ''with'', ''yield'']"

definition py_builtins :: "string list" where
  "py_builtins =
    [''int'', ''str'', ''float'', ''list'', ''dict'', ''tuple'', ''set'', ''bool'', ''print'',
     ''len'', ''range'', ''open'', ''super'', ''isinstance'', ''type'']"

definition cpp_types :: "string list" where
  "cpp_types =
    [''int'', ''float'', ''double'', ''char'', ''void'', ''bool'', ''string'', ''vector'',
     ''map'', ''set'', ''pair'', ''tuple'', ''istream'', ''ostream'', ''fstream'', ''size_t'']"

definition cpp_keywords :: "string list" where
  "cpp_keywords =
    [''alignas'', ''alignof'', ''and'', ''and_eq'', ''asm'', ''atomic_cancel'',
     ''atomic_commit'', ''atomic_noexcept'', ''auto'', ''bitand'', ''bitor'', ''bool'',
     ''break'', ''case'', ''catch'', ''char'', ''char8_t'', ''char16_t'', ''char32_t'',
     ''class'', ''compl'', ''concept'', ''const'', ''consteval'', ''constexpr'',
     ''constinit'', ''const_cast'', ''continue'', ''co_await'', ''co_return'', ''co_yield'',
     ''decltype'', ''default'', ''delete'', ''do'', ''double'', ''dynamic_cast'', ''else'',
     ''enum'', ''explicit'', ''export'', ''extern'', ''false'', ''float'', ''for'',
     ''friend'', ''goto'', ''if'', ''inline'', ''int'', ''long'', ''mutable'', ''namespace'',
     ''new'', ''noexcept'', ''not'', ''not_eq'', ''nullptr'', ''operator'', ''or'', ''or_eq'',
     ''private'', ''protected'', ''public'', ''reflexpr'', ''register'', ''reinterpret_cast'',
     ''requires'', ''return'', ''short'', ''signed'', ''sizeof'', ''static'',
     ''static_assert'', ''static_cast'', ''struct'', ''switch'', ''synchronized'',
     ''template'', ''this'', ''thread_local'', ''throw'', ''true'', ''try'', ''typedef'',
     ''typeid'', ''typename'', ''union'', ''unsigned'', ''using'', ''virtual'', ''void'',
     ''volatile'', ''wchar_t'', ''while'', ''xor'', ''xor_eq'']"

definition sql_keywords :: "string list" where
  "sql_keywords =
    [''SELECT'', ''FROM'', ''WHERE'', ''INSERT'', ''UPDATE'', ''DELETE'', ''CREATE'',
     ''ALTER'', ''DROP'', ''TABLE'', ''VIEW'', ''INDEX'', ''JOIN'', ''LEFT'', ''RIGHT'',
     ''INNER'', ''OUTER'', ''ON'', ''AS'', ''GROUP'', ''BY'', ''ORDER'', ''ASC'', ''DESC'',
     ''AND'', ''OR'', ''NOT'', ''NULL'', ''IN'', ''LIKE'', ''BETWEEN'', ''CASE'', ''WHEN'',
     ''THEN'', ''ELSE'', ''END'', ''DISTINCT'', ''HAVING'', ''UNION'', ''ALL'', ''EXISTS'',
     ''VALUES'', ''INTO'', ''SET'', ''BEGIN'', ''TRANSACTION'', ''COMMIT'', ''ROLLBACK'',
     ''PRIMARY'', ''FOREIGN'', ''KEY'', ''REFERENCES'', ''CONSTRAINT'', ''DEFAULT'',
     ''CHECK'', ''TRIGGER'', ''PROCEDURE'', ''FUNCTION'', ''CAST'', ''CONVERT'', ''DECLARE'',
     ''EXEC'', ''EXECUTE'', ''GO'', ''IF'', ''IS'', ''VARCHAR'', ''INT'', ''FLOAT'',
     ''DATETIME'', ''TEXT'', ''BLOB'']"

definition sql_funcs :: "string list" where
  "sql_funcs =
    [''COUNT'', ''SUM'', ''AVG'', ''MIN'', ''MAX'', ''GETDATE'', ''NOW'', ''DATE'',
     ''SUBSTRING'', ''LOWER'', ''UPPER'', ''ABS'', ''ROUND'', ''COALESCE'', ''ISNULL'']"

definition cs_keywords :: "string list" where
  "cs_keywords =
    [''abstract'', ''as'', ''base'', ''bool'', ''break'', ''byte'', ''case'', ''catch'',
     ''char'', ''checked'', ''class'', ''const'', ''continue'', ''decimal'', ''default'',
     ''delegate'', ''do'', ''double'', ''else'', ''enum'', ''event'', ''explicit'',
     ''extern'', ''false'', ''finally'', ''fixed'', ''float'', ''for'', ''foreach'', ''goto'',
     ''if'', ''implicit'', ''in'', ''int'', ''interface'', ''internal'', ''is'', ''lock'',
     ''long'', ''namespace'', ''new'', ''null'', ''object'', ''operator'', ''out'',
     ''override'', ''params'', ''private'', ''protected'', ''public'', ''readonly'', ''ref'',
     ''return'', ''sbyte'', ''sealed'', ''short'', ''sizeof'', ''stackalloc'', ''static'',
     ''string'', ''struct'', ''switch'', ''this'', ''throw'', ''true'', ''try'', ''typeof'',
     ''uint'', ''ulong'', ''unchecked'', ''unsafe'', ''ushort'', ''using'', ''virtual'',
     ''void'', ''volatile'', ''while'', ''get'', ''set'', ''value'', ''var'', ''add'',
     ''remove'', ''yield'', ''dynamic'', ''await'', ''async'']"

definition css_vals :: "string list" where
  "css_vals =
    [''auto'', ''inherit'', ''initial'', ''unset'', ''none'', ''block'', ''inline'', ''flex'',
     ''grid'', ''bold'', ''italic'', ''normal'', ''absolute'', ''relative'', ''fixed'',
     ''static'']"

definition js_keywords :: "string list" where
  "js_keywords =
    [''break'', ''case'', ''catch'', ''class'', ''const'', ''continue'', ''debugger'',
     ''default'', ''delete'', ''do'', ''else'', ''export'', ''extends'', ''false'',
     ''finally'', ''for'', ''function'', ''if'', ''import'', ''in'', ''instanceof'', ''let'',
     ''new'', ''null'', ''return'', ''super'', ''switch'', ''this'', ''throw'', ''true'',
     ''try'', ''typeof'', ''var'', ''void'', ''while'', ''with'', ''yield'', ''async'',
     ''await'', ''static'', ''get'', ''set'', ''arguments'', ''of'', ''undefined'']"

definition js_builtins :: "string list" where
  "js_builtins =
    [''console'', ''Math'', ''JSON'', ''Promise'', ''Object'', ''Array'', ''String'',
     ''Number'', ''Boolean'', ''Date'', ''RegExp'', ''Error'', ''Symbol'', ''Map'', ''Set'',
     ''WeakMap'', ''WeakSet'', ''Intl'', ''isNaN'', ''parseFloat'', ''parseInt'',
     ''document'', ''window'', ''fetch'', ''setTimeout'', ''setInterval'', ''clearTimeout'',
     ''clearInterval'', ''alert'', ''confirm'', ''prompt'']"

text \<open>
  The quoted-string patterns \<^verbatim>\<open>".*?(?<!\\)"\<close> and \<^verbatim>\<open>'.*?(?<!\\)'\<close>, the template
  literal \<^verbatim>\<open>`.*?`\<close> and the C++ raw string \<^verbatim>\<open>R"\((?:(?!\)).)*\)"\<close>.
\<close>

definition quoted :: "char \<Rightarrow> regex" where
  "quoted q = seq [ch q, lazy_star any_char, NotBehind [bsl], ch q]"

definition template_literal :: regex where
  "template_literal = seq [ch CHR ''`'', lazy_star any_char, ch CHR ''`'']"

definition raw_string :: regex where
  "raw_string =
     seq [ch CHR ''R'', ch dq, ch CHR ''('',
          star (seq [Ahead False (ch CHR '')''), any_char]),
          ch CHR '')'', ch dq]"

text \<open>
  The number patterns \<^verbatim>\<open>\b[0-9]+\.?[0-9]*([eE][-+]?[0-9]+)?\b\<close>, \<^verbatim>\<open>\b0[xX][0-9a-fA-F]+\b\<close>,
  \<^verbatim>\<open>\b0[bB][01]+\b\<close> and \<^verbatim>\<open>\b0[oO]?[0-7]+\b\<close>.
\<close>

definition decimal_number :: regex where
  "decimal_number =
     seq [WordB, plus digit_c, opt (ch CHR ''.''), star digit_c,
          opt (seq [Cls True ''eE'', opt (Cls True ''-+''), plus digit_c]),
          WordB]"

definition hex_number :: regex where
  "hex_number = seq [WordB, ch CHR ''0'', Cls True ''xX'', plus (Cls True hex_chars), WordB]"

definition binary_number :: regex where
  "binary_number = seq [WordB, ch CHR ''0'', Cls True ''bB'', plus (Cls True ''01''), WordB]"

definition octal_number :: regex where
  "octal_number =
     seq [WordB, ch CHR ''0'', opt (Cls True ''oO''), plus (Cls True ''01234567''), WordB]"

text \<open>
  \<^verbatim>\<open>ops = r'[=\+\-\*\/%<>&\|\^~!:\.\?,\.;]'\<close> and \<^verbatim>\<open>braces = r'[\(\)\{\}\[\]]'\<close>.
\<close>

definition ops :: regex where
  "ops = Cls True ''=+-*/%<>&|^~!:.?,.;''"

definition braces :: regex where
  "braces = Cls True ''(){}[]''"

text \<open>Lines 112-123: the general patterns.\<close>

definition general_patterns :: "string \<Rightarrow> rule list" where
  "general_patterns language =
     [(quoted dq, string_format), (quoted sq, string_format)]
     @ (if language = ''javascript'' then [(template_literal, string_format)] else [])
     @ (if language = ''c++'' then [(raw_string, string_format)] else [])
     @ [(decimal_number, number_format), (hex_number, number_format),
        (binary_number, number_format), (octal_number, number_format),
        (ops, operator_format), (braces, brace_format)]"

text \<open>
  Lines 141-146: \<^verbatim>\<open>#[^\n]*\<close>, \<^verbatim>\<open>//[^\n]*\<close> and \<^verbatim>\<open>--[^\n]*\<close>.
\<close>

definition line_comment :: "string \<Rightarrow> regex" where
  "line_comment opener = seq [lit opener, star (Cls False [nl])]"

definition single_line_comments :: "string \<Rightarrow> rule list" where
  "single_line_comments language =
     (if List.member [''python'', ''markdown'', ''text''] language
      then [(line_comment ''#'', comment_format)] else [])
     @ (if List.member [''c++'', ''c#'', ''javascript''] language
        then [(line_comment ''//'', comment_format)] else [])
     @ (if language = ''sql'' then [(line_comment ''--'', comment_format)] else [])"

text \<open>Lines 150-156: the single-line strings, appended a second time.\<close>

definition single_line_strings :: "string \<Rightarrow> rule list" where
  "single_line_strings language =
     [(quoted dq, string_format), (quoted sq, string_format)]
     @ (if language = ''javascript'' then [(template_literal, string_format)] else [])
     @ (if language = ''c++'' then [(raw_string, string_format)] else [])"

text \<open>Line 158: \<^verbatim>\<open>\b\w+(?=\s*\()\<close>.\<close>

definition function_call :: regex where
  "function_call = seq [WordB, plus word_c, Ahead True (seq [star space_c, ch CHR ''(''])]"

definition function_call_rule :: rule where
  "function_call_rule = (function_call, function_format)"

text \<open>
  Lines 161-176 (Python): \<^verbatim>\<open>\bdef\s+(\w+)\<close>, \<^verbatim>\<open>\bclass\s+(\w+)\<close>, \<^verbatim>\<open>^\s*@\w+\<close>,
  \<^verbatim>\<open>\bself\b\<close>, \<^verbatim>\<open>\bcls\b\<close>, the function call rule, then one rule per builtin
  and one rule per keyword.
\<close>

definition definition_header :: "regex \<Rightarrow> regex" where
  "definition_header intro = seq [WordB, intro, plus space_c, plus word_c]"

definition python_rules :: "rule list" where
  "python_rules =
     [(definition_header (lit ''def''), function_format),
      (definition_header (lit ''class''), class_type_format),
      (seq [Bol, star space_c, ch CHR ''@'', plus word_c], decorator_format),
      (bword ''self'', self_format),
      (bword ''cls'', self_format),
      function_call_rule]
     @ map (\<lambda>bi. (bword bi, builtin_format)) py_builtins
     @ map (\<lambda>kw. (bword kw, keyword_format)) py_keywords"

text \<open>
  Lines 179-213 (C++): \<^verbatim>\<open>\b(std::)?{t}\b\<close> per type, \<^verbatim>\<open>\b(true|false|nullptr)\b\<close>,
  \<^verbatim>\<open>\b(class|struct)\s+(\w+)\<close>, \<^verbatim>\<open>\b\w+(?=\s*\()\<close>, \<^verbatim>\<open>^\s*#\w+.*\<close>, \<^verbatim>\<open>\bthis\b\<close>,
  the function call rule, then one rule per keyword.
\<close>

definition preprocessor_line :: regex where
  "preprocessor_line = seq [Bol, star space_c, ch CHR ''#'', plus word_c, star any_char]"

definition cpp_rules :: "rule list" where
  "cpp_rules =
     map (\<lambda>t. (seq [WordB, opt (lit ''std::''), lit t, WordB], cpp_type_format)) cpp_types
     @ [(seq [WordB, alts [lit ''true'', lit ''false'', lit ''nullptr''], WordB],
         cpp_literal_format),
        (definition_header (alts [lit ''class'', lit ''struct'']), class_type_format),
        (function_call, function_format),
        (preprocessor_line, preprocessor_format),
        (bword ''this'', self_format),
        function_call_rule]
     @ map (\<lambda>kw. (bword kw, keyword_format)) cpp_keywords"

text \<open>Lines 216-236 (SQL): case-insensitive function names, then keywords.\<close>

definition sql_rules :: "rule list" where
  "sql_rules =
     map (\<lambda>func. (bword_ci func, function_format)) sql_funcs
     @ map (\<lambda>kw. (bword_ci kw, keyword_format)) sql_keywords"

text \<open>
  Lines 239-249 (Markdown): \<^verbatim>\<open>^#{1,6}\s+.*\<close>, \<^verbatim>\<open>\*\*(.*?)\*\*\<close>, \<^verbatim>\<open>__([^_]+)__\<close>,
  \<^verbatim>\<open>\*([^*]+)\*\<close>, \<^verbatim>\<open>_([^_]+)_\<close>, \<^verbatim>\<open>`(.+?)`\<close>, \<^verbatim>\<open>^```.*\<close>,
  \<^verbatim>\<open>!?\[.*?\]\(.*?\)\<close>, \<^verbatim>\<open>^\s*[-*+]\s+.*\<close>, \<^verbatim>\<open>^>\s+.*\<close>.
\<close>

definition markdown_rules :: "rule list" where
  "markdown_rules =
     [(seq [Bol, Rep True 1 (Some 6) (ch CHR ''#''), plus space_c, star any_char],
       md_header_format),
      (seq [lit ''**'', lazy_star any_char, lit ''**''], md_emphasis_format),
      (seq [lit ''__'', plus (Cls False ''_''), lit ''__''], md_emphasis_format),
      (seq [ch CHR ''*'', plus (Cls False ''*''), ch CHR ''*''], md_italic_format),
      (seq [ch CHR ''_'', plus (Cls False ''_''), ch CHR ''_''], md_italic_format),
      (seq [ch CHR ''`'', lazy_plus any_char, ch CHR ''`''], md_code_format),
      (seq [Bol, lit ''```'', star any_char], md_code_block_marker_format),
      (seq [opt (ch CHR ''!''), ch CHR ''['', lazy_star any_char, ch CHR '']'',
            ch CHR ''('', lazy_star any_char, ch CHR '')''], link_format),
      (seq [Bol, star space_c, Cls True ''-*+'', plus space_c, star any_char],
       operator_format),
      (seq [Bol, ch CHR ''>'', plus space_c, star any_char], comment_format)]"

text \<open>
  Lines 252-273 (C\#): \<^verbatim>\<open>\b(class|interface|enum|struct)\s+(\w+)\<close>,
  \<^verbatim>\<open>\b\w+\s+(\w+)\s*\(\<close>, \<^verbatim>\<open>^\s*\[.*\]\<close>, \<^verbatim>\<open>^\s*#\w+.*\<close>, \<^verbatim>\<open>\bthis\b\<close>, the function
  call rule, then one rule per keyword.
\<close>

definition cs_rules :: "rule list" where
  "cs_rules =
     [(definition_header (alts [lit ''class'', lit ''interface'', lit ''enum'', lit ''struct'']),
       class_type_format),
      (seq [WordB, plus word_c, plus space_c, plus word_c, star space_c, ch CHR ''(''],
       function_format),
      (seq [Bol, star space_c, ch CHR ''['', star any_char, ch CHR '']''], decorator_format),
      (preprocessor_line, preprocessor_format),
      (bword ''this'', self_format),
      function_call_rule]
     @ map (\<lambda>kw. (bword kw, keyword_format)) cs_keywords"

text \<open>
  Lines 281-285 (HTML): \<^verbatim>\<open></?([a-zA-Z0-9\-]+)\b\<close>, \<^verbatim>\<open><!DOCTYPE\b\<close>,
  \<^verbatim>\<open>\b([a-zA-Z\-]+)\s*=\<close>, \<^verbatim>\<open>&[a-zA-Z0-9#]+;\<close>.
\<close>

definition html_rules :: "rule list" where
  "html_rules =
     [(seq [ch CHR ''<'', opt (ch CHR ''/''), plus (Cls True (alnum_chars @ ''-'')), WordB],
       tag_format),
      (seq [lit ''<!DOCTYPE'', WordB], tag_format),
      (seq [WordB, plus (Cls True (alpha_chars @ ''-'')), star space_c, ch CHR ''=''],
       attribute_format),
      (seq [ch CHR ''&'', plus (Cls True (alnum_chars @ ''#'')), ch CHR '';''],
       entity_format)]"

text \<open>
  Lines 290-299 (CSS):
  \<^verbatim>\<open>^\s*([\*\.#]?[a-zA-Z0-9\-_]+(?:\s*[,>+~ ]\s*[\*\.#]?[a-zA-Z0-9\-_]+)*)\<close>,
  \<^verbatim>\<open>:[a-zA-Z\-]+(\(.*?\))?\<close>, \<^verbatim>\<open>\b([a-zA-Z\-]+)\s*:\<close>,
  \<^verbatim>\<open>\b\d+(px|em|rem|%|pt|vh|vw|s|ms)\b\<close>, \<^verbatim>\<open>#[0-9a-fA-F]{3,8}\b\<close>,
  \<^verbatim>\<open>\b(rgb|rgba|hsl|hsla)\(.*?\)\<close>, then one rule per value keyword.
\<close>

definition css_simple_selector :: regex where
  "css_simple_selector = seq [opt (Cls True ''*.#''), plus (Cls True (alnum_chars @ ''-_''))]"

definition css_rules :: "rule list" where
  "css_rules =
     [(seq [Bol, star space_c, css_simple_selector,
            star (seq [star space_c, Cls True '',>+~ '', star space_c, css_simple_selector])],
       selector_format),
      (seq [ch CHR '':'', plus (Cls True (alpha_chars @ ''-'')),
            opt (seq [ch CHR ''('', lazy_star any_char, ch CHR '')''])],
       selector_format),
      (seq [WordB, plus (Cls True (alpha_chars @ ''-'')), star space_c, ch CHR '':''],
       property_format),
      (seq [WordB, plus digit_c,
            alts [lit ''px'', lit ''em'', lit ''rem'', lit ''%'', lit ''pt'', lit ''vh'',
                  lit ''vw'', lit ''s'', lit ''ms''],
            WordB],
       unit_format),
      (seq [ch CHR ''#'', Rep True 3 (Some 8) (Cls True hex_chars), WordB], color_format),
      (seq [WordB, alts [lit ''rgb'', lit ''rgba'', lit ''hsl'', lit ''hsla''],
            ch CHR ''('', lazy_star any_char, ch CHR '')''],
       color_format)]
     @ map (\<lambda>v. (bword v, css_value_format)) css_vals"

text \<open>
  Lines 302-323 (JavaScript): one rule per builtin, \<^verbatim>\<open>\b(function|const|let|var)\s+\*?(\w+)\<close>,
  \<^verbatim>\<open>=>\<close>, \<^verbatim>\<open>\bclass\s+(\w+)\<close>, \<^verbatim>\<open>/[^/\n\\]*(?:\\.[^/\n\\]*)*/[gimyus]*\<close>, \<^verbatim>\<open>\bthis\b\<close>,
  the function call rule, then one rule per keyword.
\<close>

definition js_rules :: "rule list" where
  "js_rules =
     map (\<lambda>bi. (bword bi, builtin_format)) js_builtins
     @ [(seq [WordB, alts [lit ''function'', lit ''const'', lit ''let'', lit ''var''],
              plus space_c, opt (ch CHR ''*''), plus word_c],
         function_format),
        (lit ''=>'', operator_format),
        (definition_header (lit ''class''), class_type_format),
        (seq [ch CHR ''/'', star (Cls False [CHR ''/'', nl, bsl]),
              star (seq [ch bsl, any_char, star (Cls False [CHR ''/'', nl, bsl])]),
              ch CHR ''/'', star (Cls True ''gimyus'')],
         regex_format),
        (bword ''this'', self_format),
        function_call_rule]
     @ map (\<lambda>kw. (bword kw, keyword_format)) js_keywords"

text \<open>Lines 161-323: the \<open>if\<close>/\<open>elif\<close> chain over the language.\<close>

definition language_rules :: "string \<Rightarrow> rule list" where
  "language_rules language =
     (if language = ''python'' then python_rules
      else if language = ''c++'' then cpp_rules
      else if language = ''sql'' then sql_rules
      else if language = ''markdown'' then markdown_rules
      else if language = ''c#'' then cs_rules
      else if language = ''html'' then html_rules
      else if language = ''css'' then css_rules
      else if language = ''javascript'' then js_rules
      else [])"

text \<open>
  Lines 128-138 and 278-279: the multi-line delimiters. For \<open>html\<close> the later
  assignments win.
\<close>

definition c_comment_languages :: "string list" where
  "c_comment_languages = [''c++'', ''c#'', ''javascript'', ''css'']"

definition setup_delimiters_and_rules :: "string \<Rightarrow> highlighter" where
  "setup_delimiters_and_rules language =
     \<lparr> highlighting_rules =
         general_patterns language @ single_line_comments language
         @ single_line_strings language @ language_rules language,
       ml_comment_start =
         (if language = ''html'' then Some (lit ''<!--'')
          else if List.member c_comment_languages language then Some (lit ''/*'')
          else None),
       ml_comment_end =
         (if language = ''html'' then Some (lit ''-->'')
          else if List.member c_comment_languages language then Some (lit ''*/'')
          else None),
       ml_string_dq_start = (if language = ''python'' then Some (lit [dq, dq, dq]) else None),
       ml_string_dq_end = (if language = ''python'' then Some (lit [dq, dq, dq]) else None),
       ml_string_sq_start = (if language = ''python'' then Some (lit [sq, sq, sq]) else None),
       ml_string_sq_end = (if language = ''python'' then Some (lit [sq, sq, sq]) else None) \<rparr>"

section \<open>The block highlighter (highlightBlock)\<close>

definition STATE_NORMAL :: int where "STATE_NORMAL = -1"
definition STATE_ML_COMMENT :: int where "STATE_ML_COMMENT = 1"
definition STATE_ML_STRING_DQ :: int where "STATE_ML_STRING_DQ = 2"
definition STATE_ML_STRING_SQ :: int where "STATE_ML_STRING_SQ = 3"

text \<open>
  What the \<open>QSyntaxHighlighter\<close> base class holds for the block being highlighted:
  the \<open>setFormat(start, count, format)\<close> calls made so far, in order, and the value
  of \<open>currentBlockState()\<close>.
\<close>

type_synonym span = "int \<times> int \<times> fmt"

record block =
  formats :: "span list"
  block_state :: int

definition setFormat :: "int \<Rightarrow> int \<Rightarrow> fmt \<Rightarrow> block \<Rightarrow> block" where
  "setFormat start count format b = b\<lparr>formats := formats b @ [(start, count, format)]\<rparr>"

definition setCurrentBlockState :: "int \<Rightarrow> block \<Rightarrow> block" where
  "setCurrentBlockState new_state b = b\<lparr>block_state := new_state\<rparr>"

text \<open>
  Lines 334-375. The three branches differ only in the end pattern, the format and
  the state; \<open>continuation_of\<close> selects the branch that is taken, if any.
\<close>

definition continuation_of :: "highlighter \<Rightarrow> int \<Rightarrow> (regex \<times> fmt \<times> int) option" where
  "continuation_of h previous_state =
     (if previous_state = STATE_ML_COMMENT \<and> ml_comment_end h \<noteq> None
      then map_option (\<lambda>e. (e, comment_format, STATE_ML_COMMENT)) (ml_comment_end h)
      else if previous_state = STATE_ML_STRING_DQ \<and> ml_string_dq_end h \<noteq> None
      then map_option (\<lambda>e. (e, string_format, STATE_ML_STRING_DQ)) (ml_string_dq_end h)
      else if previous_state = STATE_ML_STRING_SQ \<and> ml_string_sq_end h \<noteq> None
      then map_option (\<lambda>e. (e, string_format, STATE_ML_STRING_SQ)) (ml_string_sq_end h)
      else None)"

text \<open>The result is the block, \<open>start_index\<close> and \<open>current_state\<close>.\<close>

definition handle_continuation ::
  "highlighter \<Rightarrow> int \<Rightarrow> string \<Rightarrow> block \<Rightarrow> block \<times> nat \<times> int" where
  "handle_continuation h previous_state text b =
     (case continuation_of h previous_state of
        None \<Rightarrow> (b, 0, STATE_NORMAL)
      | Some (end_regex, format, in_state) \<Rightarrow>
          (case re_match end_regex text 0 of
             None \<Rightarrow>
               (setCurrentBlockState in_state (setFormat 0 (int (length text)) format b),
                0, in_state)
           | Some (end_index, len) \<Rightarrow>
               (setCurrentBlockState STATE_NORMAL
                  (setFormat 0 (int end_index + int len) format b),
                end_index + len, STATE_NORMAL)))"

text \<open>
  Lines 386-413: one of the three checks for the start of a multi-line construct,
  updating \<open>(next_ml_start, matched_state, match_len)\<close>.
\<close>

definition check_ml_start ::
  "regex option \<Rightarrow> int \<Rightarrow> string \<Rightarrow> nat \<Rightarrow> int \<times> int \<times> nat \<Rightarrow> int \<times> int \<times> nat" where
  "check_ml_start start_regex this_state text start_index found =
     (case found of (next_ml_start, matched_state, match_len) \<Rightarrow>
        (case start_regex of
           None \<Rightarrow> found
         | Some r \<Rightarrow>
             (case re_match r text start_index of
                None \<Rightarrow> found
              | Some (idx, len) \<Rightarrow>
                  if next_ml_start = -1 \<or> int idx < next_ml_start
                  then (int idx, this_state, len)
                  else found)))"

definition find_ml_start :: "highlighter \<Rightarrow> string \<Rightarrow> nat \<Rightarrow> int \<times> int \<times> nat" where
  "find_ml_start h text start_index =
     check_ml_start (ml_string_sq_start h) STATE_ML_STRING_SQ text start_index
       (check_ml_start (ml_string_dq_start h) STATE_ML_STRING_DQ text start_index
          (check_ml_start (ml_comment_start h) STATE_ML_COMMENT text start_index
             (-1, STATE_NORMAL, 0)))"

text \<open>Lines 418-424: every rule, in table order, on \<open>sub_text\<close>.\<close>

definition apply_rule :: "nat \<Rightarrow> string \<Rightarrow> rule \<Rightarrow> block \<Rightarrow> block" where
  "apply_rule start_index sub_text rl b =
     (case rl of (pattern, format) \<Rightarrow>
        fold (\<lambda>(captured_start, captured_length).
                setFormat (int start_index + int captured_start) (int captured_length) format)
             (globalMatch pattern sub_text) b)"

definition apply_rules :: "rule list \<Rightarrow> nat \<Rightarrow> string \<Rightarrow> block \<Rightarrow> block" where
  "apply_rules rules start_index sub_text b =
     (if sub_text \<noteq> [] then fold (apply_rule start_index sub_text) rules b else b)"

text \<open>Lines 429-440: the end pattern and the format of the construct that starts.\<close>

definition ml_end_of :: "highlighter \<Rightarrow> int \<Rightarrow> regex option \<times> fmt" where
  "ml_end_of h current_state =
     (if current_state = STATE_ML_COMMENT then (ml_comment_end h, comment_format)
      else if current_state = STATE_ML_STRING_DQ then (ml_string_dq_end h, string_format)
      else if current_state = STATE_ML_STRING_SQ then (ml_string_sq_end h, string_format)
      else (None, comment_format))"

text \<open>Lines 466-467.\<close>

definition set_final_state :: "int \<Rightarrow> int \<Rightarrow> block \<Rightarrow> block" where
  "set_final_state previous_state current_state b =
     (if previous_state = STATE_NORMAL then setCurrentBlockState current_state b else b)"

text \<open>
  Lines 380-467, the body of \<^verbatim>\<open>if start_index < len(text) or len(text) == 0\<close>, up to
  the recursive call: \<open>Tail start_index b\<close> says that \<open>self.highlightBlock(text[start_index:])\<close>
  is called next on block \<open>b\<close>; \<open>Finished b\<close> is the block after lines 466-467 when
  there is no recursive call.
\<close>

datatype scan_result = Finished block | Tail nat block

definition process_segment ::
  "highlighter \<Rightarrow> int \<Rightarrow> string \<Rightarrow> nat \<Rightarrow> int \<Rightarrow> block \<Rightarrow> scan_result" where
  "process_segment h previous_state text start_index current_state b =
     (case find_ml_start h text start_index of (next_ml_start, matched_state, match_len) \<Rightarrow>
        let process_end_index = (if next_ml_start \<noteq> -1 then nat next_ml_start else length text);
            sub_text = take (process_end_index - start_index) (drop start_index text);
            b2 = apply_rules (highlighting_rules h) start_index sub_text b
        in if next_ml_start \<noteq> -1 then
             (case ml_end_of h matched_state of (ml_end_regex, ml_format) \<Rightarrow>
                (case (case ml_end_regex of
                         None \<Rightarrow> None
                       | Some e \<Rightarrow> re_match e text (nat next_ml_start + match_len)) of
                   Some (end_index, end_len) \<Rightarrow>
                     Tail (end_index + end_len)
                       (setFormat next_ml_start
                          ((int end_index + int end_len) - next_ml_start) ml_format b2)
                 | None \<Rightarrow>
                     Finished
                       (set_final_state previous_state matched_state
                          (setFormat next_ml_start
                             (int (length text) - next_ml_start) ml_format b2))))
           else Finished (set_final_state previous_state current_state b2))"

text \<open>
  \<open>highlightBlock\<close>, lines 325-467. \<open>previousBlockState()\<close> is the argument
  \<open>previous_state\<close>; it is the same in the recursive call on the tail, which works on
  the same block. \<open>None\<close> stands for a recursion that does not come to an end.
\<close>

partial_function (option) highlightBlock ::
  "highlighter \<Rightarrow> int \<Rightarrow> string \<Rightarrow> block \<Rightarrow> block option" where
  [code]: "highlightBlock h previous_state text b =
     (case handle_continuation h previous_state text b of (b1, start_index, current_state) \<Rightarrow>
        if start_index < length text \<or> length text = 0 then
          (case process_segment h previous_state text start_index current_state b1 of
             Finished b2 \<Rightarrow> Some b2
           | Tail start_index2 b2 \<Rightarrow>
               Option.bind (highlightBlock h previous_state (drop start_index2 text) b2)
                 (\<lambda>b3. Some (set_final_state previous_state STATE_NORMAL b3)))
        else Some b1)"


text \<open>
  One highlighting of a block: the host clears the formats, calls \<open>highlightBlock\<close> and
  reads the spans and the block state. \<open>stored_state\<close> is the state the block holds
  when the call begins (\<open>-1\<close> for a block that was never highlighted).
\<close>

definition highlight :: "highlighter \<Rightarrow> string \<Rightarrow> int \<Rightarrow> int \<Rightarrow> (span list \<times> int) option" where
  "highlight h text previous_state stored_state =
     map_option (\<lambda>b. (formats b, block_state b))
       (highlightBlock h previous_state text \<lparr>formats = [], block_state = stored_state\<rparr>)"

section \<open>Reading the spans\<close>

text \<open>
  The host applies the \<open>setFormat\<close> calls in order, each overwriting the format of the
  characters it covers: the style of the character at offset \<open>i\<close> is the format of the
  last span that covers \<open>i\<close>.
\<close>

definition style_at :: "span list \<Rightarrow> int \<Rightarrow> fmt option" where
  "style_at spans i =
     (case filter (\<lambda>(start, count, f). start \<le> i \<and> i < start + count) (rev spans) of
        [] \<Rightarrow> None
      | (start, count, f) # _ \<Rightarrow> Some f)"

section \<open>Notions used in the proofs\<close>





text \<open>
  The spans that the rules add for a segment, and a block with spans appended.
\<close>

definition matches_spans :: "nat \<Rightarrow> string \<Rightarrow> rule \<Rightarrow> span list" where
  "matches_spans si sub rl =
     map (\<lambda>(cs, cl). (int si + int cs, int cl, snd rl)) (globalMatch (fst rl) sub)"

definition rules_spans :: "rule list \<Rightarrow> nat \<Rightarrow> string \<Rightarrow> span list" where
  "rules_spans rules si sub = (if sub \<noteq> [] then concat (map (matches_spans si sub) rules) else [])"

definition add_spans :: "span list \<Rightarrow> block \<Rightarrow> block" where
  "add_spans sp b = b\<lparr>formats := formats b @ sp\<rparr>"

section \<open>Bounds of the matches\<close>

lemma rep_bounds:
  "(\<And>i e. e \<in> set (step i) \<Longrightarrow> i \<le> e \<and> e \<le> max i n) \<Longrightarrow>
   e \<in> set (rep step greedy mn mx fuel i) \<Longrightarrow> i \<le> e \<and> e \<le> max i n"
proof (induction step greedy mn mx fuel i arbitrary: e rule: rep.induct)
  case (1 step greedy mn mx fuel i)
  from "1.prems"(2) obtain j where j: "j \<in> set (step i)"
    and e: "e \<in> set (rep step greedy mn (map_option (\<lambda>m. m - 1) mx) fuel j)"
    by auto
  from "1.prems"(1)[OF j] have ij: "i \<le> j" "j \<le> max i n" by auto
  from "1.IH"[OF j "1.prems"(1) e] ij show ?case by auto
next
  case (2 step greedy mx i)
  then show ?case by simp
next
  case (3 step greedy mx fuel i)
  show ?case
  proof (cases "e = i")
    case True
    then show ?thesis by simp
  next
    case False
    with "3.prems"(2) have ne: "mx \<noteq> Some 0"
      by (auto split: if_splits)
    with False "3.prems"(2) obtain j where j: "j \<in> set (step i)" and lt: "i < j"
      and e: "e \<in> set (rep step greedy 0 (map_option (\<lambda>m. m - 1) mx) fuel j)"
      by (auto simp: Let_def split: if_splits)
    from "3.prems"(1)[OF j] have jn: "j \<le> max i n" by auto
    from "3.IH"[OF ne j lt "3.prems"(1) e] lt jn show ?thesis by auto
  qed
qed

lemma rmatch_bounds:
  "e \<in> set (rmatch r s i) \<Longrightarrow> i \<le> e \<and> e \<le> max i (length s)"
proof (induction r arbitrary: i e)
  case (Cat r1 r2)
  from Cat.prems obtain j where j: "j \<in> set (rmatch r1 s i)" and e: "e \<in> set (rmatch r2 s j)"
    by auto
  from Cat.IH(1)[OF j] Cat.IH(2)[OF e] show ?case by auto
next
  case (Rep greedy mn mx r)
  from Rep.prems have "e \<in> set (rep (rmatch r s) greedy mn mx (length s - i) i)" by simp
  from rep_bounds[of "rmatch r s" "length s", OF Rep.IH this]
  show ?case by simp
qed (auto split: if_splits)

lemma match_at_bounds:
  assumes "match_at ne r s i = Some e"
  shows "i \<le> e \<and> e \<le> max i (length s) \<and> (ne \<longrightarrow> e \<noteq> i)"
proof -
  from assms obtain es where "filter (\<lambda>e. \<not> ne \<or> e \<noteq> i) (rmatch r s i) = e # es"
    by (auto simp: match_at_def split: list.splits)
  then have "e \<in> set (filter (\<lambda>e. \<not> ne \<or> e \<noteq> i) (rmatch r s i))" by simp
  then have "e \<in> set (rmatch r s i)" "\<not> ne \<or> e \<noteq> i" by auto
  with rmatch_bounds[of e r s i] show ?thesis by auto
qed

lemma scan_from_bounds:
  "p + n \<le> length s \<Longrightarrow> scan_from r s n p = Some (start, len) \<Longrightarrow>
     p \<le> start \<and> start + len \<le> length s"
proof (induction n arbitrary: p)
  case 0
  show ?case
  proof (cases "match_at False r s p")
    case None
    with 0 show ?thesis by simp
  next
    case (Some e)
    with 0 match_at_bounds[OF Some] show ?thesis by auto
  qed
next
  case (Suc n)
  show ?case
  proof (cases "match_at False r s p")
    case None
    with Suc.prems have "scan_from r s n (Suc p) = Some (start, len)" by simp
    from Suc.IH[OF _ this] Suc.prems(1) show ?thesis by simp
  next
    case (Some e)
    with Suc.prems match_at_bounds[OF Some] show ?thesis by auto
  qed
qed

lemma re_match_bounds:
  assumes "re_match r s offset = Some (start, len)"
  shows "offset \<le> start \<and> start + len \<le> length s"
proof -
  from assms have le: "offset \<le> length s"
    and sc: "scan_from r s (length s - offset) offset = Some (start, len)"
    by (auto simp: re_match_def split: if_splits)
  from le have "offset + (length s - offset) \<le> length s" by simp
  from scan_from_bounds[OF this sc] show ?thesis .
qed

lemma next_match_bounds:
  assumes "next_match r s offset pe = Some (start, len)"
  shows "offset \<le> start \<and> start + len \<le> length s \<and> (pe \<longrightarrow> offset < start + len)"
proof (cases pe)
  case False
  with assms re_match_bounds[of r s offset start len] show ?thesis
    by (simp add: next_match_def)
next
  case True
  show ?thesis
  proof (cases "match_at True r s offset")
    case None
    with True assms have "re_match r s (Suc offset) = Some (start, len)"
      by (simp add: next_match_def)
    from re_match_bounds[OF this] True show ?thesis by simp
  next
    case (Some e)
    from match_at_bounds[OF Some] Some True assms show ?thesis
      by (auto simp: next_match_def)
  qed
qed

text \<open>The loop over the matches of a pattern comes to an end.\<close>

termination global_match
proof (relation "measure (\<lambda>(r, s, offset, pe). 2 * (Suc (length s) - offset) + (if pe then 0 else 1))",
       goal_cases)
  case 1
  show ?case by simp
next
  case (2 r s offset previous_empty m start len)
  from 2 have nm: "next_match r s offset previous_empty = Some (start, len)" by simp
  from next_match_bounds[OF nm]
  have b: "offset \<le> start" "start + len \<le> length s" "previous_empty \<longrightarrow> offset < start + len"
    by auto
  show ?case
  proof (cases previous_empty)
    case True
    with b have "offset < start + len" "start + len \<le> length s" by simp_all
    with True show ?thesis by (cases "len = 0") simp_all
  next
    case False
    with b show ?thesis by (cases "len = 0") simp_all
  qed
qed

declare global_match.simps [simp del]

section \<open>Tags: saving and filtering\<close>


section \<open>Spans stay inside the block\<close>


lemma block_state_setFormat: "block_state (setFormat s c f b) = block_state b"
  by (simp add: setFormat_def)


lemma block_state_setCurrentBlockState: "block_state (setCurrentBlockState x b) = x"
  by (simp add: setCurrentBlockState_def)













lemmas highlightBlock_induct = highlightBlock.raw_induct[rotated 1, consumes 1, case_names step]



section \<open>Termination\<close>











section \<open>The stored block state\<close>

text \<open>
  \<open>highlightBlock\<close> calls \<open>setCurrentBlockState\<close> in the continuation branches and,
  when the previous state is \<open>STATE_NORMAL\<close>, at its end. For any other previous state
  the block keeps the state it held before the call.
\<close>

lemma setFormat_upd:
  "setFormat s c f (b\<lparr>block_state := x\<rparr>) = (setFormat s c f b)\<lparr>block_state := x\<rparr>"
  by (simp add: setFormat_def)

lemma apply_rule_upd:
  "apply_rule si sub rl (b\<lparr>block_state := x\<rparr>) = (apply_rule si sub rl b)\<lparr>block_state := x\<rparr>"
proof -
  obtain pattern format where rl: "rl = (pattern, format)" by (cases rl)
  have "fold (\<lambda>(cs, cl). setFormat (int si + int cs) (int cl) format) ms (b\<lparr>block_state := x\<rparr>)
        = (fold (\<lambda>(cs, cl). setFormat (int si + int cs) (int cl) format) ms b)\<lparr>block_state := x\<rparr>"
    for ms
    by (induction ms arbitrary: b) (auto simp: setFormat_upd)
  with rl show ?thesis by (simp add: apply_rule_def)
qed

lemma apply_rules_upd:
  "apply_rules rules si sub (b\<lparr>block_state := x\<rparr>) = (apply_rules rules si sub b)\<lparr>block_state := x\<rparr>"
proof -
  have "fold (apply_rule si sub) rules (b\<lparr>block_state := x\<rparr>)
        = (fold (apply_rule si sub) rules b)\<lparr>block_state := x\<rparr>"
    by (induction rules arbitrary: b) (simp_all add: apply_rule_upd)
  then show ?thesis by (simp add: apply_rules_def)
qed

lemma block_state_apply_rules: "block_state (apply_rules rules si sub b) = block_state b"
proof -
  have "apply_rules rules si sub (b\<lparr>block_state := block_state b\<rparr>)
          = (apply_rules rules si sub b)\<lparr>block_state := block_state b\<rparr>"
    by (rule apply_rules_upd)
  then have "apply_rules rules si sub b = (apply_rules rules si sub b)\<lparr>block_state := block_state b\<rparr>"
    by simp
  then have "block_state (apply_rules rules si sub b)
     = block_state ((apply_rules rules si sub b)\<lparr>block_state := block_state b\<rparr>)"
    by simp
  then show ?thesis by simp
qed

lemma add_spans_simps:
  "formats (add_spans sp b) = formats b @ sp"
  "block_state (add_spans sp b) = block_state b"
  "add_spans sp (b\<lparr>block_state := x\<rparr>) = (add_spans sp b)\<lparr>block_state := x\<rparr>"
  "add_spans sp2 (add_spans sp1 b) = add_spans (sp1 @ sp2) b"
  "add_spans [] b = b"
  "setFormat s c f b = add_spans [(s, c, f)] b"
  by (simp_all add: add_spans_def setFormat_def)

lemma apply_rule_eq: "apply_rule si sub rl b = add_spans (matches_spans si sub rl) b"
proof -
  obtain pattern format where rl: "rl = (pattern, format)" by (cases rl)
  have "fold (\<lambda>(cs, cl). setFormat (int si + int cs) (int cl) format) ms b
        = add_spans (map (\<lambda>(cs, cl). (int si + int cs, int cl, format)) ms) b" for ms
    by (induction ms arbitrary: b) (auto simp: add_spans_def setFormat_def)
  with rl show ?thesis by (simp add: apply_rule_def matches_spans_def)
qed

lemma apply_rules_eq: "apply_rules rules si sub b = add_spans (rules_spans rules si sub) b"
proof -
  have "fold (apply_rule si sub) rules b = add_spans (concat (map (matches_spans si sub) rules)) b"
    by (induction rules arbitrary: b) (simp_all add: apply_rule_eq add_spans_simps(4,5))
  then show ?thesis by (simp add: apply_rules_def rules_spans_def add_spans_simps(5))
qed

text \<open>The outcome of a segment, apart from the final state setting.\<close>

lemma process_segment_cases:
  obtains (tail) k sp where
      "\<And>p cs b. process_segment h p text si cs b = Tail k (add_spans sp b)"
  | (finished) fs sp where
      "\<And>p cs b. process_segment h p text si cs b
          = Finished (set_final_state p (fs cs) (add_spans sp b))"
proof -
  obtain nms ms ml where f: "find_ml_start h text si = (nms, ms, ml)"
    by (cases "find_ml_start h text si")
  obtain er mf where e: "ml_end_of h ms = (er, mf)" by (cases "ml_end_of h ms")
  show thesis
  proof (cases "nms = -1")
    case True
    show thesis
      by (rule finished[of "\<lambda>cs. cs"])
         (simp add: process_segment_def Let_def f True apply_rules_eq)
  next
    case False
    show thesis
    proof (cases "case er of None \<Rightarrow> None | Some e \<Rightarrow> re_match e text (nat nms + ml)")
      case None
      show thesis
        by (rule finished[of "\<lambda>cs. ms"])
           (simp add: process_segment_def Let_def f e None False apply_rules_eq add_spans_simps(4,6))
    next
      case (Some m)
      obtain ei el where m: "m = (ei, el)" by (cases m)
      show thesis
        by (rule tail)
           (simp add: process_segment_def Let_def f e Some m False apply_rules_eq add_spans_simps(4,6))
    qed
  qed
qed

lemma continuation_of_normal: "continuation_of h STATE_NORMAL = None"
  by (simp add: continuation_of_def STATE_NORMAL_def STATE_ML_COMMENT_def
        STATE_ML_STRING_DQ_def STATE_ML_STRING_SQ_def)

lemma continuation_of_not_normal: "continuation_of h p = Some c \<Longrightarrow> p \<noteq> STATE_NORMAL"
  using continuation_of_normal[of h] by auto

lemma handle_continuation_none:
  "continuation_of h p = None \<Longrightarrow> handle_continuation h p text b = (b, 0, STATE_NORMAL)"
  by (simp add: handle_continuation_def)


lemma set_final_state_simps:
  "p \<noteq> STATE_NORMAL \<Longrightarrow> set_final_state p cs b = b"
  "set_final_state STATE_NORMAL cs (b\<lparr>block_state := x\<rparr>) = set_final_state STATE_NORMAL cs b"
  "formats (set_final_state p cs b) = formats b"
  by (simp_all add: set_final_state_def setCurrentBlockState_def)


lemma highlightBlock_keeps_state:
  assumes "highlightBlock h p text b = Some r" "p \<noteq> STATE_NORMAL" "continuation_of h p = None"
  shows "block_state r = block_state b
       \<and> highlightBlock h p text (b\<lparr>block_state := c\<rparr>) = Some (r\<lparr>block_state := c\<rparr>)"
  using assms
proof (induction arbitrary: c rule: highlightBlock_induct)
  case (step hb h p blk b r)
  note IH = step.IH and body = step.hyps and p = step.prems(1) and none = step.prems(2)
  note hc = handle_continuation_none[OF none]
  show ?case
  proof (cases rule: process_segment_cases[of h blk 0])
    case (tail k sp)
    from body hc tail p obtain b3
      where rec: "hb h p (drop k blk) (add_spans sp b) = Some b3" and r: "r = b3"
      by (auto simp: bind_eq_Some_conv set_final_state_simps(1))
    from IH[OF rec p none, of c]
    have "block_state b3 = block_state b"
      "highlightBlock h p (drop k blk) (add_spans sp (b\<lparr>block_state := c\<rparr>))
         = Some (b3\<lparr>block_state := c\<rparr>)"
      by (simp_all add: add_spans_simps(2,3))
    with r hc tail p show ?thesis
      by (subst highlightBlock.simps) (simp add: set_final_state_simps(1))
  next
    case (finished fs sp)
    from body hc finished p have "r = add_spans sp b"
      by (simp add: set_final_state_simps(1))
    with hc finished p show ?thesis
      by (subst highlightBlock.simps) (simp add: set_final_state_simps(1) add_spans_simps(2,3))
  qed
qed

lemma highlightBlock_no_continuation:
  assumes "highlightBlock h p text b = Some r"
    and "continuation_of h p = None" and "continuation_of h p' = None"
  shows "\<exists>r'. highlightBlock h p' text b = Some r' \<and> formats r' = formats r"
  using assms
proof (induction rule: highlightBlock_induct)
  case (step hb h p blk b r)
  note IH = step.IH and body = step.hyps and none = step.prems(1) and none' = step.prems(2)
  note hc = handle_continuation_none[OF none] and hc' = handle_continuation_none[OF none']
  show ?case
  proof (cases rule: process_segment_cases[of h blk 0])
    case (tail k sp)
    from body hc tail obtain b3
      where rec: "hb h p (drop k blk) (add_spans sp b) = Some b3"
        and r: "r = set_final_state p STATE_NORMAL b3"
      by (auto simp: bind_eq_Some_conv)
    from IH[OF rec none none'] obtain r3
      where "highlightBlock h p' (drop k blk) (add_spans sp b) = Some r3" "formats r3 = formats b3"
      by blast
    with r hc' tail show ?thesis
      by (subst highlightBlock.simps) (simp add: set_final_state_simps(3))
  next
    case (finished fs sp)
    from body hc finished have "r = set_final_state p (fs STATE_NORMAL) (add_spans sp b)" by simp
    with hc' finished show ?thesis
      by (subst highlightBlock.simps) (simp add: set_final_state_simps(3))
  qed
qed

section \<open>Concrete blocks\<close>

lemma eval_cpp_int_x:
  "highlight (setup_delimiters_and_rules ''c++'') ''int x'' STATE_ML_COMMENT stored
     = Some ([(0, 5, comment_format), (0, 3, cpp_type_format), (0, 3, keyword_format)],
             STATE_ML_COMMENT)"
  by code_simp

lemma eval_cpp_two_comments:
  \<open>highlight (setup_delimiters_and_rules ''c++'') ''/* c1 */ "str" /* c2 */'' STATE_NORMAL stored
     = Some ([(0, 8, comment_format), (1, 5, string_format), (1, 5, string_format),
              (7, 8, comment_format)], STATE_NORMAL)\<close>
  by code_simp

lemma eval_py_class:
  "highlight (setup_delimiters_and_rules ''python'') ''class Foo:'' STATE_NORMAL stored
     = Some ([(9, 1, operator_format), (0, 9, class_type_format), (0, 5, keyword_format)],
             STATE_NORMAL)"
  by code_simp

lemma eval_cpp_unclosed_second:
  "highlight (setup_delimiters_and_rules ''c++'') ''/* a */ /* b'' STATE_NORMAL stored
     = Some ([(0, 7, comment_format), (1, 4, comment_format)], STATE_NORMAL)"
  by code_simp

lemma eval_py_pass:
  "highlight (setup_delimiters_and_rules ''python'') ''pass'' STATE_ML_COMMENT stored
     = Some ([(0, 4, keyword_format)], stored)"
  by code_simp

lemma eval_py_pass_normal:
  "highlight (setup_delimiters_and_rules ''python'') ''pass'' STATE_NORMAL stored
     = Some ([(0, 4, keyword_format)], STATE_NORMAL)"
  by code_simp



lemma cpp_comment_continuation:
  "continuation_of (setup_delimiters_and_rules ''c++'') STATE_ML_COMMENT
     = Some (lit ''*/'', comment_format, STATE_ML_COMMENT)"
  by code_simp

lemma py_no_comment_continuation:
  "continuation_of (setup_delimiters_and_rules ''python'') STATE_ML_COMMENT = None"
  by code_simp

lemma no_end_int_x: "re_match (lit ''*/'') ''int x'' 0 = None"
  by code_simp


lemma states_distinct:
  "STATE_ML_COMMENT \<noteq> STATE_NORMAL"
  by (simp add: STATE_ML_COMMENT_def STATE_NORMAL_def)


section \<open>The continuation phase\<close>

text \<open>
  Claim C1 (the code departs from it). When the end pattern of the construct named by the
  previous state has no match in the block, the claim wants the whole block styled as the
  construct and no further rule processing. \<open>start_index\<close> stays \<open>0\<close> in that branch, so
  the guard \<^verbatim>\<open>start_index < len(text)\<close> lets the scan phase run: for C++, the block
  \<open>int x\<close> inside a comment gets the comment span and then a type span and a keyword span
  over \<open>int\<close>, which ends up styled as a keyword. The returned state is the previous one.
\<close>

theorem continuation_without_end_still_scans:
  "continuation_of (setup_delimiters_and_rules ''c++'') STATE_ML_COMMENT
     = Some (lit ''*/'', comment_format, STATE_ML_COMMENT)
   \<and> re_match (lit ''*/'') ''int x'' 0 = None
   \<and> highlight (setup_delimiters_and_rules ''c++'') ''int x'' STATE_ML_COMMENT stored
       = Some ([(0, 5, comment_format), (0, 3, cpp_type_format), (0, 3, keyword_format)],
               STATE_ML_COMMENT)
   \<and> style_at [(0, 5, comment_format), (0, 3, cpp_type_format), (0, 3, keyword_format)] 0
       = Some keyword_format"
  using cpp_comment_continuation no_end_int_x eval_cpp_int_x[of stored]
  by (simp add: style_at_def)

text \<open>
  Claim C5 as stated fails: for Python (no comment construct) and previous state
  \<open>STATE_ML_COMMENT\<close>, the block \<open>pass\<close> is not styled as a comment and the state after
  the call is the stored one, not the previous state.
\<close>

theorem missing_end_counterexample:
  "continuation_of (setup_delimiters_and_rules ''python'') STATE_ML_COMMENT = None
   \<and> highlight (setup_delimiters_and_rules ''python'') ''pass'' STATE_ML_COMMENT STATE_NORMAL
       = Some ([(0, 4, keyword_format)], STATE_NORMAL)"
  using py_no_comment_continuation eval_py_pass[of STATE_NORMAL] by simp

text \<open>
  Claim C5, amended. When the previous state is not \<open>STATE_NORMAL\<close> and no continuation
  branch applies to it (the table defines no end pattern for it), the continuation phase
  is skipped: \<open>highlight\<close> emits exactly the spans it emits for the previous state
  \<open>STATE_NORMAL\<close>, it returns whenever that call returns, and it never sets the block
  state, which stays the stored one. No error is raised.
\<close>

theorem missing_end_as_normal:
  assumes "previous_state \<noteq> STATE_NORMAL" and "continuation_of h previous_state = None"
  shows "highlight h text previous_state stored
           = map_option (\<lambda>res. (fst res, stored)) (highlight h text STATE_NORMAL stored)"
proof -
  let ?b = "\<lparr>formats = [], block_state = stored\<rparr>"
  show ?thesis
  proof (cases "highlightBlock h previous_state text ?b")
    case None
    have "highlightBlock h STATE_NORMAL text ?b = None"
    proof (rule ccontr)
      assume "highlightBlock h STATE_NORMAL text ?b \<noteq> None"
      then obtain r where "highlightBlock h STATE_NORMAL text ?b = Some r" by auto
      from highlightBlock_no_continuation[OF this continuation_of_normal assms(2)] None
      show False by simp
    qed
    with None show ?thesis by (simp add: highlight_def)
  next
    case (Some r)
    from highlightBlock_no_continuation[OF Some assms(2) continuation_of_normal] obtain r'
      where "highlightBlock h STATE_NORMAL text ?b = Some r'" "formats r' = formats r" by blast
    moreover from highlightBlock_keeps_state[OF Some assms, of stored]
    have "block_state r = stored" by simp
    ultimately show ?thesis using Some by (simp add: highlight_def)
  qed
qed

theorem missing_end_as_normal_witness:
  "STATE_ML_COMMENT \<noteq> STATE_NORMAL
   \<and> continuation_of (setup_delimiters_and_rules ''python'') STATE_ML_COMMENT = None
   \<and> highlight (setup_delimiters_and_rules ''python'') ''pass'' STATE_ML_COMMENT STATE_ML_STRING_DQ
       = map_option (\<lambda>res. (fst res, STATE_ML_STRING_DQ))
           (highlight (setup_delimiters_and_rules ''python'') ''pass'' STATE_NORMAL
              STATE_ML_STRING_DQ)"
  using missing_end_as_normal[OF states_distinct py_no_comment_continuation,
          of "''pass''" STATE_ML_STRING_DQ]
        states_distinct py_no_comment_continuation
  by simp



section \<open>The scan phase and the recursion on the tail\<close>

text \<open>
  Claim C2 (the code departs from it). After a construct that starts and ends in the
  block, the rest of the block is highlighted by \<^verbatim>\<open>self.highlightBlock(text[start_index:])\<close>.
  The recursive call works on the tail only, so its \<open>setFormat\<close> offsets count from the
  start of the tail, not of the block: for C++ and \<open>/* c1 */ "str" /* c2 */\<close> the string
  span is emitted at offset \<open>1\<close> (not \<open>9\<close>) and the second comment span at offset \<open>7\<close>
  (not \<open>15\<close>). The state is \<open>STATE_NORMAL\<close>, as claimed.
\<close>

theorem tail_spans_relative_offsets:
  \<open>highlight (setup_delimiters_and_rules ''c++'') ''/* c1 */ "str" /* c2 */'' STATE_NORMAL stored
     = Some ([(0, 8, comment_format), (1, 5, string_format), (1, 5, string_format),
              (7, 8, comment_format)], STATE_NORMAL)
   \<and> (9, 5, string_format)
         \<notin> set ([(0, 8, comment_format), (1, 5, string_format), (1, 5, string_format),
                  (7, 8, comment_format)] :: span list)
   \<and> (15, 8, comment_format)
         \<notin> set ([(0, 8, comment_format), (1, 5, string_format), (1, 5, string_format),
                  (7, 8, comment_format)] :: span list)\<close>
  using eval_cpp_two_comments[of stored] by simp

text \<open>
  Claim C4 (the code departs from it). With previous state \<open>STATE_NORMAL\<close>, a construct
  that starts after an earlier construct of the same block and does not end in the block
  is found by the recursive call on the tail. That call sets the block state to the
  construct's state, but when it returns the outer call sets \<open>STATE_NORMAL\<close> again
  (lines 454 and 466-467); and the span is at the tail's offsets. For C++ and
  \<open>/* a */ /* b\<close> the state is \<open>STATE_NORMAL\<close> and the second span is \<open>(1, 4)\<close>, where the
  claim wants \<open>STATE_ML_COMMENT\<close> and \<open>(8, 4)\<close>.
\<close>

theorem second_construct_state_lost:
  "highlight (setup_delimiters_and_rules ''c++'') ''/* a */ /* b'' STATE_NORMAL stored
     = Some ([(0, 7, comment_format), (1, 4, comment_format)], STATE_NORMAL)
   \<and> STATE_NORMAL \<noteq> STATE_ML_COMMENT"
  using eval_cpp_unclosed_second[of stored] states_distinct by simp

section \<open>Rule order\<close>

text \<open>
  Claim C3 as stated fails: for Python and \<open>class Foo:\<close> the token \<open>class\<close> does not end
  up with the class/type format.
\<close>

theorem class_token_counterexample:
  "highlight (setup_delimiters_and_rules ''python'') ''class Foo:'' STATE_NORMAL STATE_NORMAL
     = Some ([(9, 1, operator_format), (0, 9, class_type_format), (0, 5, keyword_format)],
             STATE_NORMAL)
   \<and> style_at [(9, 1, operator_format), (0, 9, class_type_format), (0, 5, keyword_format)] 0
       \<noteq> Some class_type_format"
  using eval_py_class[of STATE_NORMAL] by (simp add: style_at_def)

text \<open>
  Claim C3, amended. For Python, \<open>class Foo:\<close> and previous state \<open>STATE_NORMAL\<close>, the
  class-definition rule emits a class/type span over \<open>class Foo\<close> and the keyword rule
  for \<open>class\<close>, which comes later in the table, emits a keyword span over \<open>class\<close>. Under
  the last-write-wins policy the five characters of \<open>class\<close> end up with the keyword
  format and the characters of \<open>Foo\<close> with the class/type format.
\<close>

theorem class_token_keyword_style:
  "highlight (setup_delimiters_and_rules ''python'') ''class Foo:'' STATE_NORMAL stored
     = Some ([(9, 1, operator_format), (0, 9, class_type_format), (0, 5, keyword_format)],
             STATE_NORMAL)
   \<and> map (style_at [(9, 1, operator_format), (0, 9, class_type_format),
                     (0, 5, keyword_format)]) [0, 1, 2, 3, 4]
       = [Some keyword_format, Some keyword_format, Some keyword_format, Some keyword_format,
          Some keyword_format]
   \<and> map (style_at [(9, 1, operator_format), (0, 9, class_type_format),
                     (0, 5, keyword_format)]) [6, 7, 8]
       = [Some class_type_format, Some class_type_format, Some class_type_format]"
  using eval_py_class[of stored] by (simp add: style_at_def)

section \<open>Determinism\<close>





end
